theory Spec2Isabelle
  imports Main "HOL-Library.AList" "HOL-Library.Multiset" "HOL-Library.Sublist"
begin

section \<open>Common values\<close>

text \<open>
  A Go \<open>error\<close> value is modelled by its message; the nil error is \<open>None\<close> of
  \<open>error option\<close>. A function returning \<open>(T, error)\<close> is a sum \<open>error + T\<close> where
  the caller only reads the value on success, and a pair where the caller keeps using
  both components.
\<close>

datatype error = Error string

fun error_message :: "error \<Rightarrow> string" where
  "error_message (Error msg) = msg"

text \<open>A call either returns or panics (a nil pointer dereference).\<close>

datatype 'a outcome = Panics | Returns 'a

text \<open>
  The order in which Go ranges over a map, and the order in which goroutines started
  together finish, is chosen by the runtime. The choice is an explicit argument here: a
  list of numbers, each picking the next element among those not yet visited. Every
  choice visits each element exactly once.
\<close>

fun range_order :: "nat list \<Rightarrow> 'a list \<Rightarrow> 'a list" where
  "range_order choice [] = []"
| "range_order [] (x # xs) = x # xs"
| "range_order (n # choice) (x # xs) =
     (let i = n mod length (x # xs)
      in (x # xs) ! i # range_order choice (take i (x # xs) @ drop (Suc i) (x # xs)))"

section \<open>Network binding plugin sidecars (package services)\<close>

subsection \<open>Data\<close>

text \<open>
  Only the fields that \<open>NetBindingPluginSidecarList\<close> reads or writes are kept:
  \<open>vmi.Spec.Domain.Devices.Interfaces\<close>, each interface's \<open>Binding\<close> pointer and its
  \<open>Name\<close>, the configuration's \<open>NetworkConfiguration\<close> pointer and its \<open>Binding\<close>
  map (which may be nil), a plugin's \<open>SidecarImage\<close> and a sidecar's \<open>Image\<close>.
\<close>

record PluginBinding =
  binding_Name :: string

record Interface =
  iface_Name :: string
  iface_Binding :: "PluginBinding option"

record VirtualMachineInstance =
  Interfaces :: "Interface list"

record InterfaceBindingPlugin =
  SidecarImage :: string

record NetworkConfiguration =
  Binding :: "(string \<rightharpoonup> InterfaceBindingPlugin) option"

record KubeVirtConfiguration =
  NetworkConfiguration :: "NetworkConfiguration option"

record HookSidecar =
  Image :: string

subsection \<open>The resolver\<close>

text \<open>
  \<open>pluginInfo, exist = m[name]\<close>: a missing key gives the zero value and \<open>false\<close>.
\<close>

definition zero_InterfaceBindingPlugin :: InterfaceBindingPlugin where
  "zero_InterfaceBindingPlugin = \<lparr>SidecarImage = ''''\<rparr>"

definition map_index :: "(string \<rightharpoonup> InterfaceBindingPlugin) \<Rightarrow> string \<Rightarrow> InterfaceBindingPlugin \<times> bool" where
  "map_index m name =
     (case m name of
        None \<Rightarrow> (zero_InterfaceBindingPlugin, False)
      | Some pluginInfo \<Rightarrow> (pluginInfo, True))"

definition unknown_binding_error :: "string \<Rightarrow> error" where
  "unknown_binding_error name =
     Error (''couldn't find configuration for network bindining: '' @ name)"

text \<open>
  The first loop. \<open>bindingByName\<close> is the local map, kept as the list of its entries
  (\<open>AList.update\<close> overwrites the entry of a key already present, so keys stay distinct).
\<close>

fun collect_bindings ::
  "KubeVirtConfiguration \<Rightarrow> Interface list \<Rightarrow> (string \<times> InterfaceBindingPlugin) list
     \<Rightarrow> error + (string \<times> InterfaceBindingPlugin) list" where
  "collect_bindings config [] bindingByName = Inr bindingByName"
| "collect_bindings config (iface # ifaces) bindingByName =
     (case iface_Binding iface of
        None \<Rightarrow> collect_bindings config ifaces bindingByName
      | Some b \<Rightarrow>
          (let (pluginInfo, exist, bindingByName') =
                 (case NetworkConfiguration config of
                    None \<Rightarrow> (zero_InterfaceBindingPlugin, False, bindingByName)
                  | Some nc \<Rightarrow>
                      (case Binding nc of
                         None \<Rightarrow> (zero_InterfaceBindingPlugin, False, bindingByName)
                       | Some catalog \<Rightarrow>
                           (let (pluginInfo, exist) = map_index catalog (binding_Name b)
                            in (pluginInfo, exist,
                                AList.update (binding_Name b) pluginInfo bindingByName))))
           in if \<not> exist then Inl (unknown_binding_error (binding_Name b))
              else collect_bindings config ifaces bindingByName'))"

text \<open>The second loop, over the entries of \<open>bindingByName\<close> in the order of the range.\<close>

fun append_sidecars ::
  "(string \<times> InterfaceBindingPlugin) list \<Rightarrow> HookSidecar list \<Rightarrow> HookSidecar list" where
  "append_sidecars [] pluginSidecars = pluginSidecars"
| "append_sidecars ((name, pluginInfo) # rest) pluginSidecars =
     append_sidecars rest
       (if SidecarImage pluginInfo \<noteq> ''''
        then pluginSidecars @ [\<lparr>Image = SidecarImage pluginInfo\<rparr>]
        else pluginSidecars)"

definition NetBindingPluginSidecarList ::
  "nat list \<Rightarrow> VirtualMachineInstance \<Rightarrow> KubeVirtConfiguration \<Rightarrow> error + HookSidecar list" where
  "NetBindingPluginSidecarList choice vmi config =
     (case collect_bindings config (Interfaces vmi) [] of
        Inl err \<Rightarrow> Inl err
      | Inr bindingByName \<Rightarrow> Inr (append_sidecars (range_order choice bindingByName) []))"

subsection \<open>Vocabulary of the properties\<close>

text \<open>The binding names a VMI declares, in interface order.\<close>

definition binding_names :: "Interface list \<Rightarrow> string list" where
  "binding_names ifaces =
     List.map_filter (\<lambda>iface. map_option binding_Name (iface_Binding iface)) ifaces"

definition declared_bindings :: "VirtualMachineInstance \<Rightarrow> string list" where
  "declared_bindings vmi = binding_names (Interfaces vmi)"

text \<open>
  The binding catalog of a configuration: an absent network configuration or an absent
  map has no entry.
\<close>

definition catalog_of :: "KubeVirtConfiguration \<Rightarrow> (string \<rightharpoonup> InterfaceBindingPlugin)" where
  "catalog_of config =
     (case NetworkConfiguration config of
        None \<Rightarrow> Map.empty
      | Some nc \<Rightarrow> (case Binding nc of None \<Rightarrow> Map.empty | Some catalog \<Rightarrow> catalog))"

text \<open>
  The sidecars the specification asks for: one per distinct declared binding name whose
  catalog entry has a non-empty sidecar image.
\<close>

definition spec_sidecars :: "VirtualMachineInstance \<Rightarrow> KubeVirtConfiguration \<Rightarrow> HookSidecar list" where
  "spec_sidecars vmi config =
     map (\<lambda>pluginInfo. \<lparr>Image = SidecarImage pluginInfo\<rparr>)
       (filter (\<lambda>pluginInfo. SidecarImage pluginInfo \<noteq> '''')
          (List.map_filter (catalog_of config) (remdups (declared_bindings vmi))))"

section \<open>The OfflineVirtualMachine controller (package watch)\<close>

subsection \<open>Data\<close>

text \<open>
  The API objects, with the fields the controller reads or writes. The virtual machine
  specification copied from the template into a created machine is opaque to the
  controller (type \<open>'s\<close>). A label set is the list of its entries, so \<open>len(labels) == 0\<close>
  is \<open>length labels = 0\<close>.
\<close>

type_synonym labels = "(string \<times> string) list"

record LabelSelector =
  MatchLabels :: labels
  MatchExpressions :: "(string \<times> string \<times> string list) list"

record GroupVersionKind =
  gvk_Group :: string
  gvk_Version :: string
  gvk_Kind :: string

record OwnerReference =
  ref_APIVersion :: string
  ref_Kind :: string
  ref_Name :: string
  ref_UID :: string
  ref_Controller :: "bool option"
  ref_BlockOwnerDeletion :: "bool option"

record ObjectMeta =
  Name :: string
  GenerateName :: string
  Namespace :: string
  UID :: string
  Labels :: labels
  DeletionTimestamp :: "nat option"
  Finalizers :: "string list"
  OwnerReferences :: "OwnerReference list"

datatype OfflineVirtualMachineConditionType =
    OfflineVirtualMachineFailure
  | OfflineVirtualMachineRunning
  | OtherConditionType string

datatype ConditionStatus = ConditionTrue | ConditionFalse | ConditionUnknown

record OfflineVirtualMachineCondition =
  cond_Type :: OfflineVirtualMachineConditionType
  cond_Status :: ConditionStatus
  cond_LastTransitionTime :: nat
  cond_Reason :: string
  cond_Message :: string

record 's VMTemplateSpec =
  tmpl_ObjectMeta :: ObjectMeta
  tmpl_Spec :: 's

record 's OfflineVirtualMachineSpec =
  Running :: bool
  Selector :: "LabelSelector option"
  Template :: "'s VMTemplateSpec option"

record OfflineVirtualMachineStatus =
  Conditions :: "OfflineVirtualMachineCondition list"

record 's OfflineVirtualMachine =
  ovm_ObjectMeta :: ObjectMeta
  ovm_Spec :: "'s OfflineVirtualMachineSpec"
  ovm_Status :: OfflineVirtualMachineStatus

text \<open>
  A virtual machine: its metadata, its specification, and the phase of its status, which
  the controller never reads itself (\<open>IsFinal\<close> does).
\<close>

record 's VirtualMachine =
  vm_ObjectMeta :: ObjectMeta
  vm_Spec :: 's
  vm_Phase :: string

subsection \<open>Effects\<close>

text \<open>
  Every call that changes something outside the reconcile (the expectations store, the
  API server, the event recorder, the work queue) is recorded, in program order, in the
  trace the function returns. Log lines are not recorded.
\<close>

datatype EventType = EventTypeNormal | EventTypeWarning

datatype EventReason =
    SuccessfulCreateVirtualMachineReason
  | FailedCreateVirtualMachineReason
  | SuccessfulDeleteVirtualMachineReason
  | FailedDeleteVirtualMachineReason
  | SuccessfulPausedReplicaSetReason
  | SuccessfulResumedReplicaSetReason

datatype 's action =
    DeleteExpectations string
  | ExpectCreations string nat
  | ExpectDeletions string "string list"
  | CreationObserved string
  | DeletionObserved string string
  | ClaimVirtualMachines "'s OfflineVirtualMachine" "'s VirtualMachine list"
  | ReleaseVirtualMachine "'s VirtualMachine"
  | VM_Create string "'s VirtualMachine"
  | VM_Delete string string
  | OVM_Update string "'s OfflineVirtualMachine"
  | Eventf "'s OfflineVirtualMachine" EventType EventReason string
  | Queue_AddRateLimited string
  | Queue_Forget string
  | Queue_Done string

text \<open>
  The controller with its collaborators. What a collaborator answers is outside the
  source file, so each answer is a field: the work queue, the two informer caches, the
  expectations store, the API client, the owner reference manager, and the library
  functions and constants the file imports.
\<close>

record 's OVMController =
  Queue_Get :: "string \<times> bool"
  vmOVMInformer_GetByKey :: "string \<Rightarrow> error + 's OfflineVirtualMachine option"
  vmInformer_ByIndex :: "string \<Rightarrow> error + 's VirtualMachine list"
  expectations_SatisfiedExpectations :: "string \<Rightarrow> bool"
  clientset_VM_Create :: "string \<Rightarrow> 's VirtualMachine \<Rightarrow> error + 's VirtualMachine"
  clientset_VM_Delete :: "string \<Rightarrow> string \<Rightarrow> error option"
  clientset_OVM_Update :: "string \<Rightarrow> 's OfflineVirtualMachine \<Rightarrow> error option"
  cm_ClaimVirtualMachines ::
    "'s OfflineVirtualMachine \<Rightarrow> 's VirtualMachine list \<Rightarrow> 's VirtualMachine list \<times> error option"
  cm_ReleaseVirtualMachine :: "'s VirtualMachine \<Rightarrow> error option"
  goroutine_order :: "nat list"
  KeyFunc :: "'s OfflineVirtualMachine \<Rightarrow> error + string"
  LabelSelectorAsSelector :: "LabelSelector \<Rightarrow> error + (labels \<Rightarrow> bool)"
  IsFinal :: "'s VirtualMachine \<Rightarrow> bool"
  NewVMReferenceFromNameWithNS :: "string \<Rightarrow> string \<Rightarrow> 's VirtualMachine"
  OfflineVirtualMachineGroupVersionKind :: GroupVersionKind
  Now :: nat

text \<open>\<open>GroupVersion().String()\<close> of the apimachinery library.\<close>

definition GroupVersion_String :: "GroupVersionKind \<Rightarrow> string" where
  "GroupVersion_String gvk =
     (if length (gvk_Group gvk) > 0 then gvk_Group gvk @ ''/'' @ gvk_Version gvk
      else gvk_Version gvk)"

text \<open>
  Modelled from the spec: \<open>controller.VirtualMachineKey\<close> is not in the source file; a
  child is keyed by its \<open>namespace/name\<close>.
\<close>

definition VirtualMachineKey :: "'s VirtualMachine \<Rightarrow> string" where
  "VirtualMachineKey vm = Namespace (vm_ObjectMeta vm) @ ''/'' @ Name (vm_ObjectMeta vm)"

text \<open>
  Modelled from the spec: \<open>controller.HasFinalizer\<close> is not in the source file; it tells
  whether the finalizer is set on the object. \<open>v1.FinalizerOrphanDependents\<close> is the
  string \<open>orphan\<close>.
\<close>

definition FinalizerOrphanDependents :: string where
  "FinalizerOrphanDependents = ''orphan''"

definition HasFinalizer :: "'s OfflineVirtualMachine \<Rightarrow> string \<Rightarrow> bool" where
  "HasFinalizer ovm finalizer = (finalizer \<in> set (Finalizers (ovm_ObjectMeta ovm)))"

text \<open>Values are immutable here, so a deep copy is the value itself.\<close>

definition DeepCopy :: "'s OfflineVirtualMachine \<Rightarrow> 's OfflineVirtualMachine" where
  "DeepCopy ovm = ovm"

subsection \<open>Status conditions\<close>

definition hasCondition ::
  "'s OfflineVirtualMachine \<Rightarrow> OfflineVirtualMachineConditionType \<Rightarrow> bool" where
  "hasCondition ovm cond = list_ex (\<lambda>c. cond_Type c = cond) (Conditions (ovm_Status ovm))"

definition removeCondition ::
  "'s OfflineVirtualMachine \<Rightarrow> OfflineVirtualMachineConditionType \<Rightarrow> 's OfflineVirtualMachine" where
  "removeCondition ovm cond =
     ovm\<lparr>ovm_Status := (ovm_Status ovm)
            \<lparr>Conditions := filter (\<lambda>c. \<not> cond_Type c = cond) (Conditions (ovm_Status ovm))\<rparr>\<rparr>"

text \<open>The conditions of one type that a parent carries.\<close>

definition conditions_of_type ::
  "OfflineVirtualMachineConditionType \<Rightarrow> 's OfflineVirtualMachine \<Rightarrow> OfflineVirtualMachineCondition list" where
  "conditions_of_type t ovm = filter (\<lambda>cond. cond_Type cond = t) (Conditions (ovm_Status ovm))"

definition appendCondition ::
  "'s OfflineVirtualMachine \<Rightarrow> OfflineVirtualMachineCondition \<Rightarrow> 's OfflineVirtualMachine" where
  "appendCondition ovm cond =
     ovm\<lparr>ovm_Status := (ovm_Status ovm)\<lparr>Conditions := Conditions (ovm_Status ovm) @ [cond]\<rparr>\<rparr>"

definition processRunning ::
  "'s OVMController \<Rightarrow> 's OfflineVirtualMachine \<Rightarrow> 's VirtualMachine option \<Rightarrow> error option
     \<Rightarrow> 's OfflineVirtualMachine" where
  "processRunning c ovm vm createErr =
     (if Running (ovm_Spec ovm) \<and> createErr = None
         \<and> \<not> hasCondition ovm OfflineVirtualMachineRunning
      then appendCondition ovm
             \<lparr>cond_Type = OfflineVirtualMachineRunning,
              cond_Status = ConditionTrue,
              cond_LastTransitionTime = Now c,
              cond_Reason = ''Created by OVM '' @ Name (ovm_ObjectMeta ovm),
              cond_Message = ''Created by OVM '' @ Name (ovm_ObjectMeta ovm)\<rparr>
      else removeCondition ovm OfflineVirtualMachineRunning)"

definition processFailure ::
  "'s OVMController \<Rightarrow> 's OfflineVirtualMachine \<Rightarrow> error option \<Rightarrow> 's OfflineVirtualMachine" where
  "processFailure c ovm createErr =
     (case createErr of
        Some err \<Rightarrow>
          (if \<not> hasCondition ovm OfflineVirtualMachineFailure
           then (let reason = (if Running (ovm_Spec ovm) then ''FailedCreate'' else ''FailedDelete'')
                 in appendCondition ovm
                      \<lparr>cond_Type = OfflineVirtualMachineFailure,
                       cond_Status = ConditionTrue,
                       cond_LastTransitionTime = Now c,
                       cond_Reason = reason,
                       cond_Message = error_message err\<rparr>)
           else ovm)
      | None \<Rightarrow>
          (if hasCondition ovm OfflineVirtualMachineFailure
           then removeCondition ovm OfflineVirtualMachineFailure
           else ovm))"

definition updateStatus ::
  "'s OVMController \<Rightarrow> 's OfflineVirtualMachine \<Rightarrow> 's VirtualMachine option \<Rightarrow> error option
     \<Rightarrow> 's action list \<times> error option" where
  "updateStatus c ovm vm createErr =
     (let errorsMatch = ((createErr \<noteq> None) = hasCondition ovm OfflineVirtualMachineFailure);
          stoppedMatch = (Running (ovm_Spec ovm) = hasCondition ovm OfflineVirtualMachineRunning)
      in if errorsMatch \<and> stoppedMatch then ([], None)
         else
           (let ovm1 = processFailure c ovm createErr;
                ovm2 = processRunning c ovm1 vm createErr;
                update = OVM_Update (Namespace (ovm_ObjectMeta ovm2)) ovm2
            in case clientset_OVM_Update c (Namespace (ovm_ObjectMeta ovm2)) ovm2 of
                 Some err \<Rightarrow> ([update], Some err)
               | None \<Rightarrow>
                   (if \<not> stoppedMatch
                    then (if Running (ovm_Spec ovm2)
                          then ([update,
                                 Eventf ovm2 EventTypeNormal SuccessfulPausedReplicaSetReason ''Running''],
                                None)
                          else ([update,
                                 Eventf ovm2 EventTypeNormal SuccessfulResumedReplicaSetReason ''Stopped''],
                                None))
                    else ([update], None))))"

subsection \<open>Listing and filtering the children\<close>

text \<open>
  Modelled from the spec: the helper \<open>filter\<close> of the package is not in the source
  file; the list is filtered to the machines that satisfy the predicate.
\<close>

definition filterActiveVMs :: "'s OVMController \<Rightarrow> 's VirtualMachine list \<Rightarrow> 's VirtualMachine list" where
  "filterActiveVMs c vms = filter (\<lambda>vm. \<not> IsFinal c vm) vms"

definition listVMsFromNamespace :: "'s OVMController \<Rightarrow> string \<Rightarrow> error + 's VirtualMachine list" where
  "listVMsFromNamespace c namespace =
     (case vmInformer_ByIndex c namespace of
        Inl err \<Rightarrow> Inl err
      | Inr objs \<Rightarrow> Inr objs)"

subsection \<open>Releasing the children of a deleted parent\<close>

text \<open>
  One goroutine per machine releases it and sends its error, if any, to a channel with
  room for all of them; after all have finished the first error in the channel is
  returned. The goroutines finish in the order the runtime chooses.
\<close>

definition orphan :: "'s OVMController \<Rightarrow> 's VirtualMachine list \<Rightarrow> 's action list \<times> error option" where
  "orphan c vms =
     (let finished = range_order (goroutine_order c) vms;
          errChan = List.map_filter (cm_ReleaseVirtualMachine c) finished
      in (map ReleaseVirtualMachine finished,
          case errChan of [] \<Rightarrow> None | err # _ \<Rightarrow> Some err))"

subsection \<open>Starting and stopping\<close>

definition getVirtualMachineBaseName :: "'s OfflineVirtualMachine \<Rightarrow> string outcome" where
  "getVirtualMachineBaseName ovm =
     (case Template (ovm_Spec ovm) of
        None \<Rightarrow> Panics
      | Some tmpl \<Rightarrow>
          (if length (Name (tmpl_ObjectMeta tmpl)) > 0 then Returns (Name (tmpl_ObjectMeta tmpl))
           else if length (GenerateName (tmpl_ObjectMeta tmpl)) > 0
           then Returns (GenerateName (tmpl_ObjectMeta tmpl))
           else Returns (Name (ovm_ObjectMeta ovm))))"

text \<open>The owner reference written into a created machine (lines 278 to 285).\<close>

definition controllerRef :: "'s OVMController \<Rightarrow> 's OfflineVirtualMachine \<Rightarrow> OwnerReference" where
  "controllerRef c ovm =
     \<lparr>ref_APIVersion = GroupVersion_String (OfflineVirtualMachineGroupVersionKind c),
      ref_Kind = gvk_Kind (OfflineVirtualMachineGroupVersionKind c),
      ref_Name = Name (ovm_ObjectMeta ovm),
      ref_UID = UID (ovm_ObjectMeta ovm),
      ref_Controller = Some True,
      ref_BlockOwnerDeletion = Some True\<rparr>"

text \<open>
  The machine built from the template (lines 271 to 285): the template's metadata with
  name, generated name, labels and owner references overwritten, and the template's
  specification.
\<close>

definition buildVM ::
  "'s OVMController \<Rightarrow> 's OfflineVirtualMachine \<Rightarrow> 's VMTemplateSpec \<Rightarrow> string \<Rightarrow> 's VirtualMachine" where
  "buildVM c ovm tmpl basename =
     (NewVMReferenceFromNameWithNS c (Namespace (ovm_ObjectMeta ovm)) [])
       \<lparr>vm_ObjectMeta := (tmpl_ObjectMeta tmpl)
          \<lparr>Name := basename,
           GenerateName := basename,
           Labels := Labels (tmpl_ObjectMeta tmpl),
           OwnerReferences := [controllerRef c ovm]\<rparr>,
        vm_Spec := tmpl_Spec tmpl\<rparr>"

text \<open>
  \<open>startStop\<close>. The two \<open>if\<close> blocks of the source test \<open>Running == true\<close> and
  \<open>Running == false\<close> one after the other; the first block either returns or falls
  through to the second, whose test then fails. A nil template panics in
  \<open>getVirtualMachineBaseName\<close>, after the expectation has been recorded.
\<close>

definition startStop ::
  "'s OVMController \<Rightarrow> 's OfflineVirtualMachine \<Rightarrow> 's VirtualMachine option
     \<Rightarrow> 's action list \<times> error option outcome" where
  "startStop c ovm vm =
     (case KeyFunc c ovm of
        Inl err \<Rightarrow> ([], Returns None)
      | Inr ovmKey \<Rightarrow>
          (if Running (ovm_Spec ovm)
           then (case vm of
                   Some running \<Rightarrow> ([], Returns None)
                 | None \<Rightarrow>
                     (case getVirtualMachineBaseName ovm of
                        Panics \<Rightarrow> ([ExpectCreations ovmKey 1], Panics)
                      | Returns basename \<Rightarrow>
                          (case Template (ovm_Spec ovm) of
                             None \<Rightarrow> ([ExpectCreations ovmKey 1], Panics)
                           | Some tmpl \<Rightarrow>
                               (let namespace = Namespace (ovm_ObjectMeta ovm);
                                    new = buildVM c ovm tmpl basename
                                in case clientset_VM_Create c namespace new of
                                     Inl err \<Rightarrow>
                                       ([ExpectCreations ovmKey 1,
                                         VM_Create namespace new,
                                         CreationObserved ovmKey,
                                         Eventf ovm EventTypeWarning FailedCreateVirtualMachineReason
                                           (''Error creating virtual machine: '' @ error_message err)],
                                        Returns (Some err))
                                   | Inr created \<Rightarrow>
                                       ([ExpectCreations ovmKey 1,
                                         VM_Create namespace new,
                                         Eventf ovm EventTypeNormal SuccessfulCreateVirtualMachineReason
                                           (''Created virtual machine: ''
                                              @ Name (vm_ObjectMeta created))],
                                        Returns None)))))
           else (case vm of
                   None \<Rightarrow> ([], Returns None)
                 | Some running \<Rightarrow>
                     (let namespace = Namespace (ovm_ObjectMeta ovm);
                          name = Name (vm_ObjectMeta running);
                          vmKey = VirtualMachineKey running
                      in case clientset_VM_Delete c namespace name of
                           Some err \<Rightarrow>
                             ([ExpectDeletions ovmKey [vmKey],
                               VM_Delete namespace name,
                               DeletionObserved ovmKey vmKey,
                               Eventf ovm EventTypeWarning FailedDeleteVirtualMachineReason
                                 (''Error deleting virtual machine '' @ name @ '': ''
                                    @ error_message err)],
                              Returns (Some err))
                         | None \<Rightarrow>
                             ([ExpectDeletions ovmKey [vmKey],
                               VM_Delete namespace name,
                               Eventf ovm EventTypeNormal SuccessfulDeleteVirtualMachineReason
                                 (''Deleted virtual machine: '' @ UID (vm_ObjectMeta running))],
                              Returns None)))))"

subsection \<open>Reconciling one key\<close>

text \<open>
  The part of \<open>execute\<close> after the parent has been validated (lines 154 to 220). The
  error of \<open>ClaimVirtualMachines\<close> stays in \<open>err\<close>, which is what the guard on more
  than one machine returns.
\<close>

definition sync ::
  "'s OVMController \<Rightarrow> string \<Rightarrow> 's OfflineVirtualMachine \<Rightarrow> 's action list \<times> error option outcome" where
  "sync c key OVM =
     (let needsSync = expectations_SatisfiedExpectations c key
      in case listVMsFromNamespace c (Namespace (ovm_ObjectMeta OVM)) of
           Inl err \<Rightarrow> ([], Returns (Some err))
         | Inr listed \<Rightarrow>
             (let active = filterActiveVMs c listed;
                  (vms, err) = cm_ClaimVirtualMachines c OVM active;
                  claimed = [ClaimVirtualMachines OVM active]
              in if err \<noteq> None then (claimed, Returns err)
                 else if length vms > 1 then (claimed, Returns err)
                 else
                   (let vm = (case vms of [only] \<Rightarrow> Some only | _ \<Rightarrow> None);
                        (started, createErr) =
                          (if needsSync \<and> DeletionTimestamp (ovm_ObjectMeta OVM) = None
                           then startStop c OVM vm
                           else ([], Returns None))
                    in case createErr of
                         Panics \<Rightarrow> (claimed @ started, Panics)
                       | Returns createErr \<Rightarrow>
                           (if DeletionTimestamp (ovm_ObjectMeta OVM) \<noteq> None
                               \<and> HasFinalizer OVM FinalizerOrphanDependents
                            then (let (released, err) = orphan c vms
                                  in (claimed @ started @ released, Returns err))
                            else (let (updated, err) = updateStatus c (DeepCopy OVM) vm createErr
                                  in (claimed @ started @ updated, Returns err))))))"

definition execute :: "'s OVMController \<Rightarrow> string \<Rightarrow> 's action list \<times> error option outcome" where
  "execute c key =
     (case vmOVMInformer_GetByKey c key of
        Inl err \<Rightarrow> ([], Returns None)
      | Inr None \<Rightarrow> ([DeleteExpectations key], Returns None)
      | Inr (Some OVM) \<Rightarrow>
          (case Template (ovm_Spec OVM) of
             None \<Rightarrow> ([], Returns None)
           | Some tmpl \<Rightarrow>
               (case Selector (ovm_Spec OVM) of
                  None \<Rightarrow> ([], Returns None)
                | Some labelSelector \<Rightarrow>
                    (if length (Labels (tmpl_ObjectMeta tmpl)) = 0 then ([], Returns None)
                     else (case LabelSelectorAsSelector c labelSelector of
                             Inl err \<Rightarrow> ([], Returns None)
                           | Inr selector \<Rightarrow>
                               (if \<not> selector (Labels (tmpl_ObjectMeta tmpl))
                                then ([], Returns None)
                                else sync c key OVM))))))"

text \<open>
  \<open>Execute\<close>: one key from the queue. \<open>Done\<close> is deferred, so it is the last call, also
  when the reconcile panics.
\<close>

definition Execute :: "'s OVMController \<Rightarrow> 's action list \<times> bool outcome" where
  "Execute c =
     (let (key, quit) = Queue_Get c
      in if quit then ([], Returns False)
         else (case execute c key of
                 (trace, Panics) \<Rightarrow> (trace @ [Queue_Done key], Panics)
               | (trace, Returns (Some err)) \<Rightarrow>
                   (trace @ [Queue_AddRateLimited key, Queue_Done key], Returns True)
               | (trace, Returns None) \<Rightarrow>
                   (trace @ [Queue_Forget key, Queue_Done key], Returns True)))"

section \<open>Example objects\<close>

text \<open>
  A VMI with two interfaces bound to \<open>passt\<close> and \<open>macvtap\<close>, one bound to neither,
  and a configuration without network configuration.
\<close>

definition iface_passt :: Interface where
  "iface_passt = \<lparr>iface_Name = ''default'', iface_Binding = Some \<lparr>binding_Name = ''passt''\<rparr>\<rparr>"

definition iface_macvtap :: Interface where
  "iface_macvtap = \<lparr>iface_Name = ''secondary'', iface_Binding = Some \<lparr>binding_Name = ''macvtap''\<rparr>\<rparr>"

definition iface_plain :: Interface where
  "iface_plain = \<lparr>iface_Name = ''pod'', iface_Binding = None\<rparr>"

definition vmi_two_bindings :: VirtualMachineInstance where
  "vmi_two_bindings = \<lparr>Interfaces = [iface_passt, iface_macvtap]\<rparr>"

definition vmi_plain :: VirtualMachineInstance where
  "vmi_plain = \<lparr>Interfaces = [iface_plain, iface_plain]\<rparr>"

definition config_empty :: KubeVirtConfiguration where
  "config_empty = \<lparr>NetworkConfiguration = None\<rparr>"

text \<open>
  A VMI that declares \<open>passt\<close> twice, \<open>macvtap\<close> and \<open>slirp\<close>, and a catalog in which
  \<open>passt\<close> and \<open>slirp\<close> share one sidecar image and \<open>macvtap\<close> has none.
\<close>

definition iface_slirp :: Interface where
  "iface_slirp = \<lparr>iface_Name = ''third'', iface_Binding = Some \<lparr>binding_Name = ''slirp''\<rparr>\<rparr>"

definition vmi_repeated :: VirtualMachineInstance where
  "vmi_repeated =
     \<lparr>Interfaces = [iface_passt, iface_plain, iface_macvtap, iface_passt, iface_slirp]\<rparr>"

definition config_catalog :: KubeVirtConfiguration where
  "config_catalog =
     \<lparr>NetworkConfiguration = Some
        \<lparr>Binding = Some
           [''passt'' \<mapsto> \<lparr>SidecarImage = ''registry/sidecar:1''\<rparr>,
            ''macvtap'' \<mapsto> \<lparr>SidecarImage = ''''\<rparr>,
            ''slirp'' \<mapsto> \<lparr>SidecarImage = ''registry/sidecar:1''\<rparr>]\<rparr>\<rparr>"

text \<open>
  The parent of the specification's first scenario: namespace \<open>default\<close>, name \<open>p\<close>,
  UID \<open>u1\<close>, running, selector and template labels \<open>app=p\<close>, no condition yet.
\<close>

definition meta_empty :: ObjectMeta where
  "meta_empty =
     \<lparr>Name = '''', GenerateName = '''', Namespace = '''', UID = '''', Labels = [],
      DeletionTimestamp = None, Finalizers = [], OwnerReferences = []\<rparr>"

definition ovm_p :: "string OfflineVirtualMachine" where
  "ovm_p =
     \<lparr>ovm_ObjectMeta = meta_empty\<lparr>Name := ''p'', Namespace := ''default'', UID := ''u1''\<rparr>,
      ovm_Spec =
        \<lparr>Running = True,
         Selector = Some \<lparr>MatchLabels = [(''app'', ''p'')], MatchExpressions = []\<rparr>,
         Template = Some
           \<lparr>tmpl_ObjectMeta = meta_empty\<lparr>Labels := [(''app'', ''p'')]\<rparr>,
            tmpl_Spec = ''memory: 64M''\<rparr>\<rparr>,
      ovm_Status = \<lparr>Conditions = []\<rparr>\<rparr>"

text \<open>The same parent stopped, and with a template that has lost its labels.\<close>

definition ovm_p_stopped :: "string OfflineVirtualMachine" where
  "ovm_p_stopped = ovm_p\<lparr>ovm_Spec := (ovm_Spec ovm_p)\<lparr>Running := False\<rparr>\<rparr>"

definition ovm_p_unlabelled :: "string OfflineVirtualMachine" where
  "ovm_p_unlabelled =
     ovm_p\<lparr>ovm_Spec := (ovm_Spec ovm_p)
       \<lparr>Template := Some \<lparr>tmpl_ObjectMeta = meta_empty, tmpl_Spec = ''memory: 64M''\<rparr>\<rparr>\<rparr>"

text \<open>Two running children of \<open>p\<close>.\<close>

definition vm_child :: "string \<Rightarrow> string VirtualMachine" where
  "vm_child name =
     \<lparr>vm_ObjectMeta = meta_empty
        \<lparr>Name := name, Namespace := ''default'', UID := ''uid-'' @ name,
         Labels := [(''app'', ''p'')]\<rparr>,
      vm_Spec = ''memory: 64M'',
      vm_Phase = ''Running''\<rparr>"

text \<open>
  A controller whose collaborators all succeed: the parent cache holds \<open>p\<close> under
  \<open>default/p\<close>, the child cache is empty, expectations are satisfied, the reference
  manager claims every candidate, and a selector matches the label sets that contain
  its \<open>MatchLabels\<close>.
\<close>

definition controller_ok :: "string OVMController" where
  "controller_ok =
     \<lparr>Queue_Get = (''default/p'', False),
      vmOVMInformer_GetByKey = (\<lambda>key. if key = ''default/p'' then Inr (Some ovm_p) else Inr None),
      vmInformer_ByIndex = (\<lambda>namespace. Inr []),
      expectations_SatisfiedExpectations = (\<lambda>key. True),
      clientset_VM_Create = (\<lambda>namespace vm. Inr vm),
      clientset_VM_Delete = (\<lambda>namespace name. None),
      clientset_OVM_Update = (\<lambda>namespace ovm. None),
      cm_ClaimVirtualMachines = (\<lambda>ovm vms. (vms, None)),
      cm_ReleaseVirtualMachine = (\<lambda>vm. None),
      goroutine_order = [],
      KeyFunc = (\<lambda>ovm. Inr (Namespace (ovm_ObjectMeta ovm) @ ''/'' @ Name (ovm_ObjectMeta ovm))),
      LabelSelectorAsSelector =
        (\<lambda>sel. Inr (\<lambda>labels. list_all (\<lambda>(k, v). map_of labels k = Some v) (MatchLabels sel))),
      IsFinal = (\<lambda>vm. vm_Phase vm = ''Succeeded'' \<or> vm_Phase vm = ''Failed''),
      NewVMReferenceFromNameWithNS =
        (\<lambda>namespace name.
           \<lparr>vm_ObjectMeta = meta_empty\<lparr>Name := name, Namespace := namespace\<rparr>,
            vm_Spec = '''', vm_Phase = ''''\<rparr>),
      OfflineVirtualMachineGroupVersionKind =
        \<lparr>gvk_Group = ''kubevirt.io'', gvk_Version = ''v1alpha1'',
         gvk_Kind = ''OfflineVirtualMachine''\<rparr>,
      Now = 0\<rparr>"

text \<open>The same controller with a parent cache whose lookup fails.\<close>

definition controller_lookup_fails :: "string OVMController" where
  "controller_lookup_fails =
     controller_ok\<lparr>vmOVMInformer_GetByKey := (\<lambda>key. Inl (Error ''index corrupted''))\<rparr>"

text \<open>The same controller with two running children of \<open>p\<close> in the child cache.\<close>

definition controller_two_children :: "string OVMController" where
  "controller_two_children =
     controller_ok\<lparr>vmInformer_ByIndex := (\<lambda>namespace. Inr [vm_child ''a'', vm_child ''b''])\<rparr>"

text \<open>The same controller with an API server that refuses every create and delete.\<close>

definition controller_api_fails :: "string OVMController" where
  "controller_api_fails =
     controller_ok
       \<lparr>clientset_VM_Create := (\<lambda>namespace vm. Inl (Error ''quota exceeded'')),
        clientset_VM_Delete := (\<lambda>namespace name. Some (Error ''forbidden''))\<rparr>"

text \<open>The same controller with the parent without template labels in the cache.\<close>

definition controller_unlabelled :: "string OVMController" where
  "controller_unlabelled =
     controller_ok\<lparr>vmOVMInformer_GetByKey := (\<lambda>key. Inr (Some ovm_p_unlabelled))\<rparr>"

section \<open>Properties of the order of a range\<close>

lemma mset_range_order: "mset (range_order choice xs) = mset xs"
proof (induction choice xs rule: range_order.induct)
  case (3 n choice x xs)
  let ?ys = "x # xs"
  let ?i = "n mod length ?ys"
  have i: "?i < length ?ys" by simp
  have "mset ?ys = mset (take ?i ?ys @ ?ys ! ?i # drop (Suc ?i) ?ys)"
    using id_take_nth_drop [OF i] by metis
  then have "mset ?ys = add_mset (?ys ! ?i) (mset (take ?i ?ys @ drop (Suc ?i) ?ys))"
    by simp
  with 3 show ?case by (simp add: Let_def)
qed simp_all

text \<open>Every order of the elements is the order of some choice.\<close>

lemma range_order_complete:
  "mset ys = mset xs \<Longrightarrow> \<exists>choice. range_order choice xs = ys"
proof (induction ys arbitrary: xs)
  case Nil
  then show ?case by simp
next
  case (Cons y ys)
  then have "y \<in> set xs" by (metis list.set_intros(1) set_mset_mset)
  then obtain i where i: "i < length xs" "xs ! i = y" by (auto simp: in_set_conv_nth)
  obtain x xs' where xs: "xs = x # xs'" using i by (cases xs) auto
  have "mset xs = add_mset y (mset (take i xs @ drop (Suc i) xs))"
    using id_take_nth_drop [OF i(1)] i(2)
    by (metis mset.simps(2) mset_append union_mset_add_mset_right)
  with Cons.prems have "mset ys = mset (take i xs @ drop (Suc i) xs)" by simp
  from Cons.IH [OF this] obtain choice where
    "range_order choice (take i xs @ drop (Suc i) xs) = ys" by blast
  then have "range_order (i # choice) xs = y # ys"
    using i xs by (simp add: Let_def)
  then show ?case by blast
qed

section \<open>Properties of the sidecar resolver\<close>

lemma append_sidecars_eq:
  "append_sidecars al acc =
     acc @ map (\<lambda>p. \<lparr>Image = SidecarImage p\<rparr>) (filter (\<lambda>p. SidecarImage p \<noteq> '''') (map snd al))"
  by (induction al acc rule: append_sidecars.induct) auto

lemma collect_bindings_no_binding:
  "\<forall>iface\<in>set ifaces. iface_Binding iface = None \<Longrightarrow> collect_bindings config ifaces acc = Inr acc"
  by (induction ifaces arbitrary: acc) auto

text \<open>One round of the first loop, in terms of the catalog.\<close>

lemma collect_bindings_step:
  "collect_bindings config (iface # ifaces) acc =
     (case iface_Binding iface of
        None \<Rightarrow> collect_bindings config ifaces acc
      | Some b \<Rightarrow>
          (case catalog_of config (binding_Name b) of
             None \<Rightarrow> Inl (unknown_binding_error (binding_Name b))
           | Some p \<Rightarrow> collect_bindings config ifaces (AList.update (binding_Name b) p acc)))"
  by (auto simp: catalog_of_def map_index_def split: option.splits)

lemma binding_names_Cons:
  "binding_names (iface # ifaces) =
     (case iface_Binding iface of None \<Rightarrow> [] | Some b \<Rightarrow> [binding_Name b])
       @ binding_names ifaces"
  by (simp add: binding_names_def map_filter_simps split: option.splits)

lemma collect_bindings_first_absent:
  "find (\<lambda>n. catalog_of config n = None) (binding_names ifaces) = Some n
     \<Longrightarrow> collect_bindings config ifaces acc = Inl (unknown_binding_error n)"
proof (induction ifaces arbitrary: acc)
  case Nil
  then show ?case by (simp add: binding_names_def map_filter_simps)
next
  case (Cons iface ifaces)
  show ?case
  proof (cases "iface_Binding iface")
    case None
    with Cons show ?thesis
      by (simp add: collect_bindings_step binding_names_Cons del: collect_bindings.simps)
  next
    case (Some b)
    with Cons show ?thesis
      by (cases "catalog_of config (binding_Name b)")
         (simp_all add: collect_bindings_step binding_names_Cons del: collect_bindings.simps)
  qed
qed

text \<open>
  When every declared name has an entry, the first loop ends with a map that holds,
  under distinct keys, the catalog entries of the declared names.
\<close>

lemma collect_bindings_resolved:
  "\<forall>n\<in>set (binding_names ifaces). catalog_of config n \<noteq> None
     \<Longrightarrow> \<exists>al. collect_bindings config ifaces acc = Inr al
            \<and> (distinct (map fst acc) \<longrightarrow> distinct (map fst al))
            \<and> map_of al = map_of acc ++ (catalog_of config |` set (binding_names ifaces))"
proof (induction ifaces arbitrary: acc)
  case Nil
  then show ?case by (simp add: binding_names_def map_filter_simps)
next
  case (Cons iface ifaces)
  show ?case
  proof (cases "iface_Binding iface")
    case None
    with Cons show ?thesis
      by (simp add: collect_bindings_step binding_names_Cons del: collect_bindings.simps)
  next
    case (Some b)
    let ?n = "binding_Name b"
    let ?rest = "binding_names ifaces"
    from Cons.prems Some obtain p where p: "catalog_of config ?n = Some p"
      by (auto simp: binding_names_Cons)
    from Cons.prems Some have rest: "\<forall>n\<in>set ?rest. catalog_of config n \<noteq> None"
      by (simp add: binding_names_Cons)
    from Cons.IH [OF rest, of "AList.update ?n p acc"] obtain al where
      al: "collect_bindings config ifaces (AList.update ?n p acc) = Inr al"
          "distinct (map fst (AList.update ?n p acc)) \<longrightarrow> distinct (map fst al)"
          "map_of al = map_of (AList.update ?n p acc) ++ (catalog_of config |` set ?rest)"
      by blast
    have m: "map_of al = map_of acc ++ (catalog_of config |` insert ?n (set ?rest))"
    proof
      fix k
      show "map_of al k = (map_of acc ++ (catalog_of config |` insert ?n (set ?rest))) k"
        using al(3) p
        by (auto simp: update_conv' map_add_def restrict_map_def split: option.splits)
    qed
    show ?thesis
      using al(1,2) m Some p
      by (simp add: collect_bindings_step binding_names_Cons distinct_update
               del: collect_bindings.simps)
  qed
qed

lemma entries_fst:
  "map fst (List.map_filter (\<lambda>n. map_option (Pair n) (cat n)) xs) = filter (\<lambda>n. cat n \<noteq> None) xs"
  by (induction xs) (auto simp: map_filter_simps split: option.splits)

lemma entries_snd:
  "map snd (List.map_filter (\<lambda>n. map_option (Pair n) (cat n)) xs) = List.map_filter cat xs"
  by (induction xs) (auto simp: map_filter_simps split: option.splits)

lemma entries_set:
  "set (List.map_filter (\<lambda>n. map_option (Pair n) (cat n)) xs) = {(n, v). n \<in> set xs \<and> cat n = Some v}"
  by (induction xs) (auto simp: map_filter_simps split: option.splits)

lemma mset_entries:
  assumes d: "distinct (map fst al)" and m: "map_of al = cat |` set ns"
  shows "mset (map snd al) = mset (List.map_filter cat (remdups ns))"
proof -
  let ?L = "List.map_filter (\<lambda>n. map_option (Pair n) (cat n)) (remdups ns)"
  have dl: "distinct al" using d by (simp add: distinct_map)
  have "distinct (map fst ?L)" by (simp add: entries_fst)
  then have dL: "distinct ?L" by (simp add: distinct_map)
  have "set al = {(n, v). map_of al n = Some v}"
    using d by auto
  also have "\<dots> = {(n, v). n \<in> set ns \<and> cat n = Some v}"
    by (auto simp: m restrict_map_def split: if_splits)
  also have "\<dots> = set ?L" by (simp add: entries_set)
  finally have "mset al = mset ?L"
    using dl dL by (simp add: set_eq_iff_mset_eq_distinct)
  then have "mset (map snd al) = mset (map snd ?L)" by (metis mset_map)
  then show ?thesis by (simp add: entries_snd)
qed

lemmas sidecar_examples =
  iface_passt_def iface_macvtap_def iface_plain_def iface_slirp_def
  vmi_two_bindings_def vmi_plain_def vmi_repeated_def config_empty_def config_catalog_def
  declared_bindings_def binding_names_def catalog_of_def map_filter_simps
  NetBindingPluginSidecarList_def map_index_def unknown_binding_error_def spec_sidecars_def

text \<open>
  Claim C8, as the code has it. When a VMI declares a binding name that has no entry in
  the catalog of the configuration (an absent network configuration or an absent catalog
  has no entry at all), the resolver returns an error and no sidecar list, and the
  message of the error ends with the first declared name, in interface order, that has
  no entry.
\<close>

theorem sidecars_unknown_binding:
  assumes "n \<in> set (declared_bindings vmi)" and "catalog_of config n = None"
  shows "\<exists>first. find (\<lambda>n. catalog_of config n = None) (declared_bindings vmi) = Some first
           \<and> NetBindingPluginSidecarList choice vmi config
               = Inl (Error (''couldn't find configuration for network bindining: '' @ first))"
proof -
  from assms obtain first where
    f: "find (\<lambda>n. catalog_of config n = None) (declared_bindings vmi) = Some first"
    by (cases "find (\<lambda>n. catalog_of config n = None) (declared_bindings vmi)")
       (auto simp: find_None_iff)
  then have "collect_bindings config (Interfaces vmi) [] = Inl (unknown_binding_error first)"
    using collect_bindings_first_absent [of config "Interfaces vmi" first "[]"]
    by (simp add: declared_bindings_def)
  with f show ?thesis
    by (simp add: NetBindingPluginSidecarList_def unknown_binding_error_def)
qed

theorem sidecars_unknown_binding_witness:
  "''macvtap'' \<in> set (declared_bindings vmi_two_bindings)
     \<and> catalog_of config_empty ''macvtap'' = None
     \<and> NetBindingPluginSidecarList [] vmi_two_bindings config_empty
         = Inl (Error ''couldn't find configuration for network bindining: passt'')"
proof -
  have declared: "''macvtap'' \<in> set (declared_bindings vmi_two_bindings)"
    by (simp add: sidecar_examples)
  have absent: "catalog_of config_empty ''macvtap'' = None"
    by (simp add: sidecar_examples)
  from sidecars_unknown_binding [OF declared absent, of "[]"] obtain first where
    "find (\<lambda>n. catalog_of config_empty n = None) (declared_bindings vmi_two_bindings) = Some first"
    "NetBindingPluginSidecarList [] vmi_two_bindings config_empty
       = Inl (Error (''couldn't find configuration for network bindining: '' @ first))"
    by blast
  then show ?thesis
    using declared absent by (simp add: sidecar_examples)
qed

text \<open>
  Claim C8, as it is stated, fails: with \<open>passt\<close> and \<open>macvtap\<close> both declared and both
  without entry, the error names \<open>passt\<close> only, and \<open>macvtap\<close> does not occur in its
  message.
\<close>

theorem sidecars_unknown_binding_counterexample:
  "''macvtap'' \<in> set (declared_bindings vmi_two_bindings)
     \<and> catalog_of config_empty ''macvtap'' = None
     \<and> NetBindingPluginSidecarList [] vmi_two_bindings config_empty
         = Inl (Error ''couldn't find configuration for network bindining: passt'')
     \<and> \<not> sublist ''macvtap'' ''couldn't find configuration for network bindining: passt''"
proof -
  have "\<not> sublist ''macvtap'' ''couldn't find configuration for network bindining: passt''"
    by code_simp
  then show ?thesis by (simp add: sidecar_examples)
qed

text \<open>
  Claim C9. When every binding name a VMI declares has an entry in the catalog, the
  resolver returns, in some order, exactly the sidecars of the specification: one per
  distinct declared name whose entry has a non-empty sidecar image, and nothing for an
  entry with an empty image.
\<close>

theorem sidecars_resolved:
  assumes "\<forall>n\<in>set (declared_bindings vmi). catalog_of config n \<noteq> None"
  shows "\<exists>sidecars. NetBindingPluginSidecarList choice vmi config = Inr sidecars
           \<and> mset sidecars = mset (spec_sidecars vmi config)"
proof -
  from collect_bindings_resolved [of "Interfaces vmi" config "[]"] assms
  obtain al where al: "collect_bindings config (Interfaces vmi) [] = Inr al"
      "distinct (map fst al)"
      "map_of al = catalog_of config |` set (declared_bindings vmi)"
    by (auto simp: declared_bindings_def)
  have "mset (map snd (range_order choice al)) = mset (map snd al)"
    by (metis mset_map mset_range_order)
  also have "\<dots> = mset (List.map_filter (catalog_of config) (remdups (declared_bindings vmi)))"
    using al(2,3) by (rule mset_entries)
  finally have "mset (append_sidecars (range_order choice al) []) = mset (spec_sidecars vmi config)"
    unfolding append_sidecars_eq spec_sidecars_def append_Nil
    by (metis mset_filter mset_map)
  with al(1) show ?thesis by (simp add: NetBindingPluginSidecarList_def)
qed

text \<open>
  At the VMI that declares \<open>passt\<close> twice, \<open>macvtap\<close> and \<open>slirp\<close>: two sidecars, one
  for \<open>passt\<close> and one for \<open>slirp\<close>, although both have the same image.
\<close>

theorem sidecars_resolved_witness:
  "list_all (\<lambda>n. catalog_of config_catalog n \<noteq> None) (declared_bindings vmi_repeated)
     \<and> spec_sidecars vmi_repeated config_catalog
         = [\<lparr>Image = ''registry/sidecar:1''\<rparr>, \<lparr>Image = ''registry/sidecar:1''\<rparr>]
     \<and> (\<exists>sidecars. NetBindingPluginSidecarList [1, 0] vmi_repeated config_catalog = Inr sidecars
           \<and> mset sidecars
               = mset [\<lparr>Image = ''registry/sidecar:1''\<rparr>, \<lparr>Image = ''registry/sidecar:1''\<rparr>])"
proof -
  have resolved: "\<forall>n\<in>set (declared_bindings vmi_repeated). catalog_of config_catalog n \<noteq> None"
    by (simp add: sidecar_examples)
  have expected: "spec_sidecars vmi_repeated config_catalog
      = [\<lparr>Image = ''registry/sidecar:1''\<rparr>, \<lparr>Image = ''registry/sidecar:1''\<rparr>]"
    by (simp add: sidecar_examples)
  from sidecars_resolved [OF resolved, of "[1, 0]"] resolved expected
  show ?thesis by (simp add: list_all_iff)
qed

text \<open>
  Claim C10. When no interface of a VMI declares a binding, the resolver returns the
  empty sidecar list and no error, whatever the configuration holds, also one without
  network configuration or without catalog.
\<close>

theorem sidecars_no_binding:
  assumes "\<forall>iface\<in>set (Interfaces vmi). iface_Binding iface = None"
  shows "NetBindingPluginSidecarList choice vmi config = Inr []"
  using collect_bindings_no_binding [OF assms, of config "[]"]
  by (simp add: NetBindingPluginSidecarList_def)

theorem sidecars_no_binding_witness:
  "list_all (\<lambda>iface. iface_Binding iface = None) (Interfaces vmi_plain)
     \<and> NetworkConfiguration config_empty = None
     \<and> NetBindingPluginSidecarList [] vmi_plain config_empty = Inr []"
proof -
  have none: "\<forall>iface\<in>set (Interfaces vmi_plain). iface_Binding iface = None"
    by (simp add: sidecar_examples)
  from sidecars_no_binding [OF none, of "[]" config_empty] none
  show ?thesis by (simp add: config_empty_def list_all_iff)
qed

end
